theory Spec2Isabelle
  imports Complex_Main "HOL-Library.Word" "HOL-Library.AList" "HOL-Library.Sublist"
begin

section \<open>Values of the example: numbers, bytes, typed argument values\<close>

text \<open>
  The parameter of \<open>new_sr_id\<close> has the TypeScript type \<open>number\<close>: an IEEE double.
  Every finite double is a rational number, so a finite value is modelled by the rational
  it denotes (the model has more finite values than there are doubles; both zeros are
  \<open>Finite 0\<close>), and the three non-finite values are constructors of their own.
\<close>

datatype number = Finite rat | NaN | PosInfinity | NegInfinity

text \<open>
  \<open>Uint8Array.from\<close> stores each element through the language's conversion to an
  unsigned byte: a non-finite number becomes 0; a finite one is truncated towards zero
  and then taken modulo \<open>2 ^ 8\<close>.
\<close>

definition trunc :: "rat \<Rightarrow> int" where
  "trunc q = (if q < 0 then \<lceil>q\<rceil> else \<lfloor>q\<rfloor>)"

fun ToUint8 :: "number \<Rightarrow> 8 word" where
  "ToUint8 (Finite q) = word_of_int (trunc q mod 2 ^ 8)"
| "ToUint8 NaN = 0"
| "ToUint8 PosInfinity = 0"
| "ToUint8 NegInfinity = 0"

definition Uint8Array_from :: "number list \<Rightarrow> 8 word list" where
  "Uint8Array_from arr = map ToUint8 arr"

text \<open>
  The identities and amounts the example hands to the SDK. A public key is kept as its
  hexadecimal form (\<open>PublicKey.fromHex\<close>, \<open>toHex\<close>), a key as the text and kind given
  to \<open>Key.createByType\<close>, an amount as the \<open>BigNumber | string\<close> or the number literal
  the source passes.
\<close>

datatype PublicKey = PublicKey_fromHex (toHex: string)

datatype KeyTypeID = Account | Hash | URef

datatype Key = Key_createByType string KeyTypeID

datatype BigNumberish = BigNumber int | DecimalString string | NumberLiteral int

text \<open>
  A \<open>CLValue\<close> of the SDK carries exactly one payload field, chosen by the constructor
  function that made it; the others are undefined. The five constructor functions the
  source calls are the five variants. \<open>byteArray\<close> is the optional field read by
  \<open>extract_sr_id\<close>.
\<close>

datatype CLValue =
    CLByteArray "8 word list"
  | CLPublicKey PublicKey
  | CLUInt512 BigNumberish
  | CLUInt256 BigNumberish
  | CLKey Key

fun byteArray :: "CLValue \<Rightarrow> 8 word list option" where
  "byteArray (CLByteArray data) = Some data"
| "byteArray (CLPublicKey k) = None"
| "byteArray (CLUInt512 n) = None"
| "byteArray (CLUInt256 n) = None"
| "byteArray (CLKey k) = None"

subsection \<open>\<open>new_sr_id\<close>\<close>

text \<open>
  \<^verbatim>\<open>let arr = new Array<number>(32).fill(0); arr[0] = value;\<close>
  \<^verbatim>\<open>return CLValue.newCLByteArray(Uint8Array.from(arr));\<close>
  Index 0 is inside the array of 32 elements, so the assignment is a list update. No step
  of the function raises.
\<close>

definition new_sr_id :: "number \<Rightarrow> CLValue" where
  "new_sr_id v =
     (let arr = replicate 32 (Finite 0);
          arr = arr[0 := v]
      in CLByteArray (Uint8Array_from arr))"

section \<open>Argument lists\<close>

text \<open>
  \<open>Args\<close> wraps a JavaScript \<open>Map\<close> from names to values: keys are compared as exact
  strings, a key occurs once, \<open>set\<close> on a key already there replaces its value in place
  and a new key goes to the end. That is an association list with \<open>AList.update\<close>.
  \<open>Args.fromMap\<close> enters the properties of an object literal in their order.
\<close>

type_synonym Args = "(string \<times> CLValue) list"

definition Args_insert :: "string \<Rightarrow> CLValue \<Rightarrow> Args \<Rightarrow> Args" where
  "Args_insert name v a = AList.update name v a"

definition Args_fromMap :: "(string \<times> CLValue) list \<Rightarrow> Args" where
  "Args_fromMap props = foldl (\<lambda>a (name, v). Args_insert name v a) [] props"

definition getByName :: "Args \<Rightarrow> string \<Rightarrow> CLValue option" where
  "getByName a name = map_of a name"

section \<open>Transactions and the remote service\<close>

datatype PricingMode =
    PaymentLimitedMode (standardPayment: bool) (paymentAmount: nat) (gasPriceTolerance: nat)
  | Builder_payment nat
    \<comment> \<open>the pricing \<open>ContractCallBuilder.payment\<close> sets from an amount\<close>

datatype TransactionTarget = Native | Stored_byPackageHash string

datatype TransactionEntryPoint = Transfer | Custom string

datatype TransactionScheduling = Standard

record TransactionV1Payload =
  initiatorAddr :: PublicKey
  timestamp :: nat
  ttl :: nat
  chainName :: string
  pricingMode :: PricingMode
  args :: Args
  transactionTarget :: TransactionTarget
  entryPoint :: TransactionEntryPoint
  scheduling :: TransactionScheduling

text \<open>
  A transaction is its payload, the hash the SDK computes from the payload, and the
  approvals added by signing. A hash is kept as its hexadecimal form.
\<close>

record Transaction =
  payload :: TransactionV1Payload
  hash :: string
  approvals :: "(PublicKey \<times> string) list"

record ExecutionResult =
  errorMessage :: "string option"

record ExecutionInfo =
  executionResult :: ExecutionResult

record InfoGetTransactionResult =
  transaction :: Transaction
  executionInfo :: "ExecutionInfo option"

text \<open>
  What the code throws: \<open>new Error(message)\<close>, and the \<open>TypeError\<close> of the runtime
  when a property of \<open>undefined\<close> is read. A rejected promise of the RPC client or a
  failure of the signer is an \<open>error\<close> too.
\<close>

datatype error = Error string | TypeError

text \<open>
  How an awaited call ends. The promise is fulfilled with a value, or it is rejected with
  an error, which the \<open>await\<close> raises in the caller; or, while the caller is suspended,
  an error is raised outside the promise, where no handler of the caller can catch it,
  and the process ends. The last is how the RPC client reports the timeout of
  \<open>waitForTransaction\<close>: it throws from a timer callback.
\<close>

datatype 'a completion = Fulfilled 'a | Rejected error | Uncaught error

text \<open>
  The module-level state and the collaborators outside the file are one environment:
  the loaded key pair (its public key, and the signature it gives for a hash, or the
  failure of signing), the clock read by \<open>new Date()\<close>, the hash function of the SDK,
  the three calls of the RPC client with the way each ends, and the \<open>toString\<close> of the
  SDK's byte-array value.
\<close>

record env =
  privateKey_publicKey :: PublicKey
  privateKey_sign :: "string \<Rightarrow> error + string"
  Date_now :: nat
  hash_of :: "TransactionV1Payload \<Rightarrow> string"
  putTransaction :: "Transaction \<Rightarrow> unit completion"
  waitForTransaction :: "Transaction \<Rightarrow> nat \<Rightarrow> InfoGetTransactionResult completion"
  getTransactionByTransactionHash :: "string \<Rightarrow> InfoGetTransactionResult completion"
  byteArray_toString :: "8 word list \<Rightarrow> string"

text \<open>The console: the lines written so far, oldest first.\<close>

datatype console_line = console_log "string list" | console_error error

type_synonym console = "console_line list"

definition makeTransactionV1 :: "env \<Rightarrow> TransactionV1Payload \<Rightarrow> Transaction" where
  "makeTransactionV1 e p = \<lparr>payload = p, hash = hash_of e p, approvals = []\<rparr>"

text \<open>\<open>transaction.sign(privateKey)\<close> signs the hash and appends the approval.\<close>

definition Transaction_sign :: "env \<Rightarrow> Transaction \<Rightarrow> error + Transaction" where
  "Transaction_sign e t =
     (case privateKey_sign e (hash t) of
        Inl err \<Rightarrow> Inl err
      | Inr signature \<Rightarrow>
          Inr (t\<lparr>approvals := approvals t @ [(privateKey_publicKey e, signature)]\<rparr>))"

definition Transaction_args :: "Transaction \<Rightarrow> Args" where
  "Transaction_args t = args (payload t)"

subsection \<open>\<open>extract_sr_id\<close>\<close>

text \<open>
  \<^verbatim>\<open>let arg = transaction.transaction.args.getByName('sr_id');\<close>
  \<^verbatim>\<open>if (arg == undefined) throw new Error("sr_id argument not found in transaction");\<close>
  \<^verbatim>\<open>return arg.byteArray!.toString();\<close>
  The \<open>!\<close> is erased by the compiler: on a value without the \<open>byteArray\<close> field the
  call of \<open>toString\<close> on \<open>undefined\<close> raises a \<open>TypeError\<close>.
\<close>

definition extract_sr_id :: "env \<Rightarrow> InfoGetTransactionResult \<Rightarrow> error + string" where
  "extract_sr_id e r =
     (case getByName (Transaction_args (transaction r)) ''sr_id'' of
        None \<Rightarrow> Inl (Error ''sr_id argument not found in transaction'')
      | Some arg \<Rightarrow>
          (case byteArray arg of
             None \<Rightarrow> Inl TypeError
           | Some data \<Rightarrow> Inr (byteArray_toString e data)))"

section \<open>Native transfer\<close>

definition build_native_transfer ::
  "env \<Rightarrow> PublicKey \<Rightarrow> PublicKey \<Rightarrow> BigNumberish \<Rightarrow> CLValue \<Rightarrow> Transaction" where
  "build_native_transfer e publicKey recipient amount sr_id =
     (let pricing = PaymentLimitedMode True 100000000 1;
          runtimeArgs = Args_fromMap [];
          runtimeArgs = Args_insert ''target'' (CLPublicKey recipient) runtimeArgs;
          runtimeArgs = Args_insert ''amount'' (CLUInt512 amount) runtimeArgs;
          runtimeArgs = Args_insert ''sr_id'' sr_id runtimeArgs;
          transactionPayload =
            \<lparr>initiatorAddr = publicKey,
             timestamp = Date_now e,
             ttl = 1800000,
             chainName = ''casper-test'',
             pricingMode = pricing,
             args = runtimeArgs,
             transactionTarget = Native,
             entryPoint = Transfer,
             scheduling = Standard\<rparr>
      in makeTransactionV1 e transactionPayload)"

text \<open>
  The success check of both senders:
  \<^verbatim>\<open>transactionResult.executionInfo?.executionResult.errorMessage == undefined\<close>.
  With \<open>executionInfo\<close> undefined the optional chain is \<open>undefined\<close> as a whole.
\<close>

definition is_success :: "InfoGetTransactionResult \<Rightarrow> bool" where
  "is_success transactionResult =
     (case executionInfo transactionResult of
        None \<Rightarrow> True
      | Some info \<Rightarrow> errorMessage (executionResult info) = None)"

text \<open>
  \<open>send_native_transfer\<close> first builds its transaction from the key pair of the module,
  the fixed recipient and the fixed amount (\<open>native_transfer_transaction\<close>). Then it
  signs, logs the hash, broadcasts, waits and checks. An error thrown by \<open>sign\<close> or by
  the check, and a rejection raised by an \<open>await\<close>, reject the promise of the function;
  an error raised outside the promise during an \<open>await\<close> ends the run there. Either way
  the console stays as it is then.
\<close>

definition native_transfer_transaction :: "env \<Rightarrow> CLValue \<Rightarrow> Transaction" where
  "native_transfer_transaction e sr_id =
     build_native_transfer e
       (privateKey_publicKey e)
       (PublicKey_fromHex
          ''0202f5a92ab6da536e7b1a351406f3744224bec85d7acbab1497b65de48a1a707b64'')
       (DecimalString ''4200000000'')
       sr_id"

definition send_native_transfer ::
  "env \<Rightarrow> CLValue \<Rightarrow> console \<Rightarrow> string completion \<times> console" where
  "send_native_transfer e sr_id con =
     (let built = native_transfer_transaction e sr_id
      in case Transaction_sign e built of
           Inl err \<Rightarrow> (Rejected err, con)
         | Inr t \<Rightarrow>
             (let con = con @ [console_log [''[x] Transaction Hash:'', hash t]] in
              case putTransaction e t of
                Rejected err \<Rightarrow> (Rejected err, con)
              | Uncaught err \<Rightarrow> (Uncaught err, con)
              | Fulfilled u \<Rightarrow>
                  (case waitForTransaction e t 100000 of
                     Rejected err \<Rightarrow> (Rejected err, con)
                   | Uncaught err \<Rightarrow> (Uncaught err, con)
                   | Fulfilled transactionResult \<Rightarrow>
                       if \<not> is_success transactionResult
                       then (Rejected (Error ''Transaction was not successful''), con)
                       else (Fulfilled (hash t), con))))"

definition run_native_transfer_example :: "env \<Rightarrow> console \<Rightarrow> unit completion \<times> console" where
  "run_native_transfer_example e con =
     (let con = con @ [console_log [''[x] Running native transfer example''],
                       console_log [''[x] Public key:'', toHex (privateKey_publicKey e)]]
      in case send_native_transfer e (new_sr_id (Finite 15)) con of
           (Rejected err, con) \<Rightarrow> (Rejected err, con)
         | (Uncaught err, con) \<Rightarrow> (Uncaught err, con)
         | (Fulfilled native_tx_hash, con) \<Rightarrow>
             (case getTransactionByTransactionHash e native_tx_hash of
                Rejected err \<Rightarrow> (Rejected err, con)
              | Uncaught err \<Rightarrow> (Uncaught err, con)
              | Fulfilled native_tx \<Rightarrow>
                  (case extract_sr_id e native_tx of
                     Inl err \<Rightarrow> (Rejected err, con)
                   | Inr extracted_sr_id \<Rightarrow>
                       (Fulfilled (),
                        con @ [console_log [''[x] Extracted sr_id argument value:'',
                                            extracted_sr_id],
                               console_log [''[x] Native transfer example finished''
                                            @ [CHR 0x0A]]]))))"

section \<open>CEP-18 transfer\<close>

text \<open>
  The builder chain at the head of \<open>send_cep18_transfer\<close>, up to \<open>txBuilder.build()\<close>:
  every setter the builder needs is called, with constants.
\<close>

definition cep18_transfer_transaction :: "env \<Rightarrow> CLValue \<Rightarrow> Transaction" where
  "cep18_transfer_transaction e sr_id =
     makeTransactionV1 e
       \<lparr>initiatorAddr = privateKey_publicKey e,
        timestamp = Date_now e,
        ttl = 1800000,
        chainName = ''casper-test'',
        pricingMode = Builder_payment 2500000000,
        args = Args_fromMap
          [(''recipient'',
            CLKey (Key_createByType
              ''account-hash-040fe59024a78372bc1225cfd5ed258eacdbbc7c5d09d35767777dc10c5d14ca''
              Account)),
           (''amount'', CLUInt256 (NumberLiteral 1000)),
           (''sr_id'', sr_id)],
        transactionTarget = Stored_byPackageHash
          ''b72183e301022030195350876ce3226d0067aee1eb3695a5252ee2b85eabe741'',
        entryPoint = Custom ''transfer'',
        scheduling = Standard\<rparr>"

definition send_cep18_transfer ::
  "env \<Rightarrow> CLValue \<Rightarrow> console \<Rightarrow> string completion \<times> console" where
  "send_cep18_transfer e sr_id con =
     (let built = cep18_transfer_transaction e sr_id
      in case Transaction_sign e built of
           Inl err \<Rightarrow> (Rejected err, con)
         | Inr t \<Rightarrow>
             (let con = con @ [console_log [''[x] Transaction Hash:'', hash t]] in
              case putTransaction e t of
                Rejected err \<Rightarrow> (Rejected err, con)
              | Uncaught err \<Rightarrow> (Uncaught err, con)
              | Fulfilled u \<Rightarrow>
                  (case waitForTransaction e t 100000 of
                     Rejected err \<Rightarrow> (Rejected err, con)
                   | Uncaught err \<Rightarrow> (Uncaught err, con)
                   | Fulfilled transactionResult \<Rightarrow>
                       if \<not> is_success transactionResult
                       then (Rejected (Error ''Transaction was not successful''), con)
                       else (Fulfilled (hash t), con))))"

definition run_cep18_transfer_example :: "env \<Rightarrow> console \<Rightarrow> unit completion \<times> console" where
  "run_cep18_transfer_example e con =
     (let con = con @ [console_log [''[x] Running CEP-18 transfer example''],
                       console_log [''[x] Public key:'', toHex (privateKey_publicKey e)]];
          sr_id = new_sr_id (Finite 63)
      in case send_cep18_transfer e sr_id con of
           (Rejected err, con) \<Rightarrow> (Rejected err, con)
         | (Uncaught err, con) \<Rightarrow> (Uncaught err, con)
         | (Fulfilled cep18_tx_hash, con) \<Rightarrow>
             (case getTransactionByTransactionHash e cep18_tx_hash of
                Rejected err \<Rightarrow> (Rejected err, con)
              | Uncaught err \<Rightarrow> (Uncaught err, con)
              | Fulfilled cep18_tx \<Rightarrow>
                  (case extract_sr_id e cep18_tx of
                     Inl err \<Rightarrow> (Rejected err, con)
                   | Inr extracted_sr_id \<Rightarrow>
                       (Fulfilled (),
                        con @ [console_log [''[x] Extracted sr_id argument value:'',
                                            extracted_sr_id],
                               console_log [''[x] CEP-18 transfer example finished''
                                            @ [CHR 0x0A]]]))))"

section \<open>Main\<close>

text \<open>
  \<^verbatim>\<open>await run_native_transfer_example().catch(console.error);\<close>
  \<^verbatim>\<open>await run_cep18_transfer_example().catch(console.error);\<close>
  \<open>catch\<close> hands a rejection to \<open>console.error\<close> and its promise is fulfilled; a
  fulfilled promise it passes on. It is no handler for an error raised outside the
  promise: the process has ended, and nothing after it runs. The \<open>await\<close> in \<open>main\<close>
  would raise a rejection of the promise it awaits.
\<close>

definition catch_console_error :: "unit completion \<times> console \<Rightarrow> unit completion \<times> console" where
  "catch_console_error r =
     (case r of
        (Rejected err, con) \<Rightarrow> (Fulfilled (), con @ [console_error err])
      | (Fulfilled u, con) \<Rightarrow> (Fulfilled u, con)
      | (Uncaught err, con) \<Rightarrow> (Uncaught err, con))"

definition main :: "env \<Rightarrow> console \<Rightarrow> unit completion \<times> console" where
  "main e con =
     (case catch_console_error (run_native_transfer_example e con) of
        (Rejected err, con) \<Rightarrow> (Rejected err, con)
      | (Uncaught err, con) \<Rightarrow> (Uncaught err, con)
      | (Fulfilled u, con) \<Rightarrow>
          (case catch_console_error (run_cep18_transfer_example e con) of
             (Rejected err, con) \<Rightarrow> (Rejected err, con)
           | (Uncaught err, con) \<Rightarrow> (Uncaught err, con)
           | (Fulfilled u, con) \<Rightarrow> (Fulfilled (), con)))"

section \<open>Environments for concrete runs\<close>

text \<open>
  A rendering of bytes as lower-case hexadecimal digits, and a service whose broadcast
  ends as \<open>put_answer\<close>, whose wait ends as \<open>wait_answer\<close> (when that is an execution
  result, with a record of the transaction it was asked about, executed with that
  result) and whose fetch by hash ends as \<open>fetch_answer\<close>. They stand for one possible
  key pair, clock, SDK and remote service.
\<close>

definition hex_digit :: "nat \<Rightarrow> char" where
  "hex_digit n = ''0123456789abcdef'' ! (n mod 16)"

definition hex_of_bytes :: "8 word list \<Rightarrow> string" where
  "hex_of_bytes data = concat (map (\<lambda>b. [hex_digit (unat b div 16), hex_digit (unat b)]) data)"

definition service_env ::
  "unit completion \<Rightarrow> ExecutionResult completion \<Rightarrow> InfoGetTransactionResult completion \<Rightarrow> env"
  where
  "service_env put_answer wait_answer fetch_answer =
     \<lparr>privateKey_publicKey = PublicKey_fromHex ''01c0ffee'',
      privateKey_sign = (\<lambda>h. Inr (''signed '' @ h)),
      Date_now = 0,
      hash_of = (\<lambda>p. ''ab12''),
      putTransaction = (\<lambda>t. put_answer),
      waitForTransaction = (\<lambda>t timeout.
        case wait_answer of
          Fulfilled result \<Rightarrow>
            Fulfilled \<lparr>transaction = t, executionInfo = Some \<lparr>executionResult = result\<rparr>\<rparr>
        | Rejected err \<Rightarrow> Rejected err
        | Uncaught err \<Rightarrow> Uncaught err),
      getTransactionByTransactionHash = (\<lambda>h. fetch_answer),
      byteArray_toString = hex_of_bytes\<rparr>"

text \<open>A fetched transaction with a given argument list and no execution information.\<close>

definition fetched_with_args :: "Args \<Rightarrow> InfoGetTransactionResult" where
  "fetched_with_args a =
     \<lparr>transaction =
        \<lparr>payload =
           \<lparr>initiatorAddr = PublicKey_fromHex ''01c0ffee'',
            timestamp = 0,
            ttl = 1800000,
            chainName = ''casper-test'',
            pricingMode = PaymentLimitedMode True 100000000 1,
            args = a,
            transactionTarget = Native,
            entryPoint = Transfer,
            scheduling = Standard\<rparr>,
         hash = ''ab12'',
         approvals = []\<rparr>,
      executionInfo = None\<rparr>"

text \<open>
  A service that accepts the broadcast, reports the execution without an error message
  and answers the fetch with a transaction that carries the tag 15.
\<close>

definition accepting_env :: env where
  "accepting_env =
     service_env (Fulfilled ()) (Fulfilled \<lparr>errorMessage = None\<rparr>)
       (Fulfilled (fetched_with_args [(''sr_id'', CLByteArray (15 # replicate 31 0))]))"

section \<open>The tag encoder\<close>

lemma replicate_32: "replicate 32 x = x # replicate 31 x"
proof -
  have "(32::nat) = Suc 31" by simp
  then show ?thesis by (simp only: replicate_Suc)
qed

lemma ToUint8_zero: "ToUint8 (Finite 0) = 0"
  by (simp add: trunc_def)

lemma new_sr_id_bytes: "new_sr_id v = CLByteArray (ToUint8 v # replicate 31 0)"
  by (simp add: new_sr_id_def Uint8Array_from_def replicate_32 ToUint8_zero del: ToUint8.simps)

lemma trunc_of_int: "trunc (of_int n) = n"
  by (simp add: trunc_def)

lemma uint_ToUint8: "uint (ToUint8 (Finite q)) = trunc q mod 256"
  by (simp add: uint_word_of_int take_bit_eq_mod)

lemma tail_zero: "1 \<le> i \<Longrightarrow> i < 32 \<Longrightarrow> (x # replicate 31 (0::8 word)) ! i = 0"
  by (cases i) simp_all

lemma native_transfer_transaction_args:
  "Transaction_args (native_transfer_transaction e s) =
     [(''target'', CLPublicKey (PublicKey_fromHex
         ''0202f5a92ab6da536e7b1a351406f3744224bec85d7acbab1497b65de48a1a707b64'')),
      (''amount'', CLUInt512 (DecimalString ''4200000000'')),
      (''sr_id'', s)]"
  by (simp add: Transaction_args_def native_transfer_transaction_def build_native_transfer_def
      makeTransactionV1_def Args_fromMap_def Args_insert_def Let_def)

text \<open>
  C7. The tag value 15 is encoded as the 32 bytes \<open>[15, 0, ..., 0]\<close>, and the
  transaction \<open>send_native_transfer\<close> builds around it is a native transfer whose
  arguments are the fixed recipient as \<open>target\<close>, the amount \<open>"4200000000"\<close> and the
  encoded tag as \<open>sr_id\<close>, whatever the key pair, the clock and the service.
\<close>

theorem encode_15_native_payload:
  "new_sr_id (Finite 15) = CLByteArray (15 # replicate 31 0)
   \<and> length (15 # replicate 31 (0::8 word)) = 32
   \<and> Transaction_args (native_transfer_transaction e (new_sr_id (Finite 15))) =
       [(''target'', CLPublicKey (PublicKey_fromHex
           ''0202f5a92ab6da536e7b1a351406f3744224bec85d7acbab1497b65de48a1a707b64'')),
        (''amount'', CLUInt512 (DecimalString ''4200000000'')),
        (''sr_id'', CLByteArray (15 # replicate 31 0))]
   \<and> transactionTarget (payload (native_transfer_transaction e (new_sr_id (Finite 15)))) = Native
   \<and> entryPoint (payload (native_transfer_transaction e (new_sr_id (Finite 15)))) = Transfer"
proof -
  have a: "new_sr_id (Finite 15) = CLByteArray (15 # replicate 31 0)"
    by (simp add: new_sr_id_bytes trunc_def)
  have c: "transactionTarget (payload (native_transfer_transaction e s)) = Native
         \<and> entryPoint (payload (native_transfer_transaction e s)) = Transfer" for s
    by (simp add: native_transfer_transaction_def build_native_transfer_def
        makeTransactionV1_def Let_def)
  show ?thesis
    using c [of "new_sr_id (Finite 15)"] by (simp add: a native_transfer_transaction_args)
qed

text \<open>
  C9, as the code has it. For every number, \<open>new_sr_id\<close> returns a byte array of
  exactly 32 bytes whose bytes 1 to 31 are zero. Its first byte is the input truncated
  towards zero and then reduced modulo 256; for an integer input that is the input modulo
  256 (so negative and too large integers wrap); for \<open>NaN\<close> and the infinities it is 0.
  No input is rejected.
\<close>

theorem new_sr_id_wraps:
  "\<exists>b. new_sr_id v = CLByteArray b \<and> length b = 32
      \<and> (\<forall>i. 1 \<le> i \<and> i < 32 \<longrightarrow> b ! i = 0)
      \<and> (\<forall>q. v = Finite q \<longrightarrow> uint (b ! 0) = trunc q mod 256)
      \<and> (\<forall>n. v = Finite (of_int n) \<longrightarrow> uint (b ! 0) = n mod 256)
      \<and> (v = NaN \<or> v = PosInfinity \<or> v = NegInfinity \<longrightarrow> b ! 0 = 0)"
proof -
  let ?b = "ToUint8 v # replicate 31 0"
  have "new_sr_id v = CLByteArray ?b" by (rule new_sr_id_bytes)
  moreover have "length ?b = 32" by simp
  moreover have "\<forall>i. 1 \<le> i \<and> i < 32 \<longrightarrow> ?b ! i = 0"
    using tail_zero by blast
  moreover have "\<forall>q. v = Finite q \<longrightarrow> uint (?b ! 0) = trunc q mod 256"
    by (auto simp: uint_ToUint8 simp del: ToUint8.simps)
  moreover have "\<forall>n. v = Finite (of_int n) \<longrightarrow> uint (?b ! 0) = n mod 256"
    by (auto simp: uint_ToUint8 trunc_of_int simp del: ToUint8.simps)
  moreover have "v = NaN \<or> v = PosInfinity \<or> v = NegInfinity \<longrightarrow> ?b ! 0 = 0"
    by auto
  ultimately show ?thesis by blast
qed

text \<open>At the input \<open>-1\<close>: 32 bytes, zeros behind the first, and the first byte is 255.\<close>

theorem new_sr_id_wraps_witness:
  "\<exists>b. new_sr_id (Finite (of_int (- 1))) = CLByteArray b \<and> length b = 32
      \<and> b ! 1 = 0 \<and> b ! 31 = 0 \<and> uint (b ! 0) = 255"
proof -
  obtain b where b: "new_sr_id (Finite (of_int (- 1))) = CLByteArray b" "length b = 32"
      "\<forall>i. 1 \<le> i \<and> i < 32 \<longrightarrow> b ! i = 0"
      "\<forall>n. Finite (of_int (- 1)) = Finite (of_int n) \<longrightarrow> uint (b ! 0) = n mod 256"
    using new_sr_id_wraps [of "Finite (of_int (- 1))"] by blast
  have "b ! 1 = 0" "b ! 31 = 0" using b(3) by simp_all
  moreover have "uint (b ! 0) = (- 1) mod 256" using b(4) by blast
  ultimately show ?thesis using b(1,2) by simp
qed

text \<open>
  The input \<open>1.5\<close> lies in the range of a byte already, so reduced modulo 256 it is
  \<open>1.5\<close> itself; the first byte of its encoding is 1.
\<close>

theorem new_sr_id_fraction_counterexample:
  "new_sr_id (Finite (3 / 2)) = CLByteArray (1 # replicate 31 0)
   \<and> rat_of_int (uint (1 :: 8 word)) \<noteq> 3 / 2 - 256 * of_int \<lfloor>(3 / 2) / (256 :: rat)\<rfloor>"
  by code_simp

text \<open>The input 256 is outside \<open>0..255\<close>, and it is encoded: as 32 zero bytes.\<close>

theorem new_sr_id_256_counterexample:
  "new_sr_id (Finite 256) = CLByteArray (0 # replicate 31 0)"
  by code_simp

text \<open>
  C4, as the code has it. For every finite number outside \<open>0..255\<close> the encoder does not
  fail: it returns a byte-array argument of 32 bytes, whose first byte is the input
  truncated towards zero and reduced modulo 256.
\<close>

theorem new_sr_id_out_of_range:
  "q < 0 \<or> 255 < q \<Longrightarrow>
     \<exists>b. new_sr_id (Finite q) = CLByteArray b \<and> length b = 32 \<and> uint (hd b) = trunc q mod 256"
  by (simp add: new_sr_id_bytes uint_ToUint8 del: ToUint8.simps)

theorem new_sr_id_out_of_range_witness:
  "((256 :: rat) < 0 \<or> 255 < (256 :: rat))
   \<and> (\<exists>b. new_sr_id (Finite 256) = CLByteArray b \<and> length b = 32 \<and> uint (hd b) = 0)"
proof -
  have h: "(256 :: rat) < 0 \<or> 255 < (256 :: rat)" by simp
  show ?thesis
    using h new_sr_id_out_of_range [OF h] by (simp add: trunc_def)
qed

section \<open>Argument lists and extraction\<close>

lemma cep18_transfer_transaction_args:
  "Transaction_args (cep18_transfer_transaction e s) =
     [(''recipient'', CLKey (Key_createByType
         ''account-hash-040fe59024a78372bc1225cfd5ed258eacdbbc7c5d09d35767777dc10c5d14ca''
         Account)),
      (''amount'', CLUInt256 (NumberLiteral 1000)),
      (''sr_id'', s)]"
  by (simp add: Transaction_args_def cep18_transfer_transaction_def
      makeTransactionV1_def Args_fromMap_def Args_insert_def)

lemma build_native_transfer_args:
  "Transaction_args (build_native_transfer e pk recipient amount s) =
     [(''target'', CLPublicKey recipient), (''amount'', CLUInt512 amount), (''sr_id'', s)]"
  by (simp add: Transaction_args_def build_native_transfer_def
      makeTransactionV1_def Args_fromMap_def Args_insert_def Let_def)

lemma distinct_Args_insert:
  "distinct (map fst a) \<Longrightarrow> distinct (map fst (Args_insert name v a))"
  by (simp add: Args_insert_def distinct_update)

lemma distinct_foldl_Args_insert:
  "distinct (map fst a) \<Longrightarrow>
     distinct (map fst (foldl (\<lambda>a (name, v). Args_insert name v a) a props))"
proof (induction props arbitrary: a)
  case Nil
  then show ?case by simp
next
  case (Cons p props)
  obtain name v where p: "p = (name, v)" by (cases p)
  have "distinct (map fst (Args_insert name v a))"
    using Cons.prems by (rule distinct_Args_insert)
  then show ?case using Cons.IH p by simp
qed

lemma distinct_Args_fromMap: "distinct (map fst (Args_fromMap props))"
  unfolding Args_fromMap_def by (rule distinct_foldl_Args_insert) simp

lemma extract_sr_id_absent:
  "(extract_sr_id e r = Inl (Error ''sr_id argument not found in transaction''))
     = (''sr_id'' \<notin> fst ` set (Transaction_args (transaction r)))"
proof (cases "map_of (Transaction_args (transaction r)) ''sr_id''")
  case None
  then show ?thesis
    by (simp add: extract_sr_id_def getByName_def map_of_eq_None_iff [symmetric])
next
  case (Some arg)
  then have "map_of (Transaction_args (transaction r)) ''sr_id'' \<noteq> None" by simp
  then have "''sr_id'' \<in> fst ` set (Transaction_args (transaction r))"
    by (simp add: map_of_eq_None_iff)
  then show ?thesis
    using Some by (simp add: extract_sr_id_def getByName_def split: option.splits)
qed

lemma extract_sr_id_present:
  "getByName (Transaction_args (transaction r)) ''sr_id'' = Some arg \<Longrightarrow>
     extract_sr_id e r =
       (case byteArray arg of None \<Rightarrow> Inl TypeError
        | Some data \<Rightarrow> Inr (byteArray_toString e data))"
  by (simp add: extract_sr_id_def)

lemma ToUint8_of_nat: "ToUint8 (Finite (of_nat n)) = of_nat n"
proof -
  have "trunc (of_nat n) = int n"
    using trunc_of_int [of "int n"] by simp
  then have "ToUint8 (Finite (of_nat n)) = word_of_int (int n mod 2 ^ 8)"
    by simp
  also have "\<dots> = word_of_int (int n)"
    by transfer (simp add: take_bit_eq_mod)
  finally show ?thesis by simp
qed

lemma unat_byte_of_nat: "n < 256 \<Longrightarrow> unat (of_nat n :: 8 word) = n"
  by (simp add: unat_of_nat)

text \<open>
  C3. A supported tag value is a byte, \<open>n < 256\<close>. Its encoding \<open>new_sr_id n\<close> is the
  array of 32 bytes whose first byte reads \<open>n\<close> again and whose other bytes are zero;
  looked up under the name \<open>sr_id\<close> in a list it was inserted into it is that same
  value, and \<open>extract_sr_id\<close>, applied to a transaction whose arguments are those of the
  native transfer or of the CEP-18 transfer built around it, returns the rendered form of
  exactly that array, whatever the rendering, the other arguments and the execution
  information. So the bytes that are decoded are the tag that was encoded.
\<close>

theorem sr_id_round_trip:
  "n < 256 \<Longrightarrow>
     new_sr_id (Finite (of_nat n)) = CLByteArray (of_nat n # replicate 31 0)
     \<and> unat (of_nat n :: 8 word) = n
     \<and> length (of_nat n # replicate 31 (0 :: 8 word)) = 32
     \<and> getByName (Args_insert ''sr_id'' (new_sr_id (Finite (of_nat n))) a) ''sr_id''
         = Some (CLByteArray (of_nat n # replicate 31 0))
     \<and> extract_sr_id e
         \<lparr>transaction = native_transfer_transaction e1 (new_sr_id (Finite (of_nat n))),
          executionInfo = i1\<rparr>
         = Inr (byteArray_toString e (of_nat n # replicate 31 0))
     \<and> extract_sr_id e
         \<lparr>transaction = cep18_transfer_transaction e2 (new_sr_id (Finite (of_nat n))),
          executionInfo = i2\<rparr>
         = Inr (byteArray_toString e (of_nat n # replicate 31 0))"
proof -
  assume n: "n < 256"
  let ?data = "of_nat n # replicate 31 (0 :: 8 word)"
  have enc: "new_sr_id (Finite (of_nat n)) = CLByteArray ?data"
    by (simp only: new_sr_id_bytes ToUint8_of_nat)
  have byte: "unat (of_nat n :: 8 word) = n"
    using n by (rule unat_byte_of_nat)
  have len: "length ?data = 32" by simp
  have look: "getByName (Args_insert ''sr_id'' (new_sr_id (Finite (of_nat n))) a) ''sr_id''
         = Some (CLByteArray ?data)"
    by (simp add: getByName_def Args_insert_def update_conv' enc)
  have nat: "extract_sr_id e
         \<lparr>transaction = native_transfer_transaction e1 (new_sr_id (Finite (of_nat n))),
          executionInfo = i1\<rparr>
         = Inr (byteArray_toString e ?data)"
    by (simp add: extract_sr_id_def getByName_def native_transfer_transaction_args enc)
  have cep: "extract_sr_id e
         \<lparr>transaction = cep18_transfer_transaction e2 (new_sr_id (Finite (of_nat n))),
          executionInfo = i2\<rparr>
         = Inr (byteArray_toString e ?data)"
    by (simp add: extract_sr_id_def getByName_def cep18_transfer_transaction_args enc)
  show ?thesis using enc byte len look nat cep by blast
qed

text \<open>
  The tag 15 of the native example, and the tag 63 of the CEP-18 example, rendered in
  hexadecimal digits: the first byte reads \<open>0f\<close> and \<open>3f\<close>.
\<close>

theorem sr_id_round_trip_witness:
  "extract_sr_id accepting_env
      \<lparr>transaction = native_transfer_transaction accepting_env (new_sr_id (Finite (of_nat 15))),
       executionInfo = None\<rparr>
     = Inr (''0f'' @ replicate 62 (CHR ''0''))
   \<and> extract_sr_id accepting_env
      \<lparr>transaction = cep18_transfer_transaction accepting_env (new_sr_id (Finite (of_nat 63))),
       executionInfo = None\<rparr>
     = Inr (''3f'' @ replicate 62 (CHR ''0''))"
proof -
  have r: "byteArray_toString accepting_env = hex_of_bytes"
    by (simp add: accepting_env_def service_env_def)
  have h15: "hex_of_bytes (of_nat 15 # replicate 31 0) = ''0f'' @ replicate 62 (CHR ''0'')"
    by code_simp
  have h63: "hex_of_bytes (of_nat 63 # replicate 31 0) = ''3f'' @ replicate 62 (CHR ''0'')"
    by code_simp
  have a: "(15 :: nat) < 256" and b: "(63 :: nat) < 256" by simp_all
  have n: "extract_sr_id accepting_env
      \<lparr>transaction = native_transfer_transaction accepting_env (new_sr_id (Finite (of_nat 15))),
       executionInfo = None\<rparr>
     = Inr (byteArray_toString accepting_env (of_nat 15 # replicate 31 0))"
    using sr_id_round_trip [OF a, of "[]" accepting_env accepting_env None accepting_env None]
    by blast
  have c: "extract_sr_id accepting_env
      \<lparr>transaction = cep18_transfer_transaction accepting_env (new_sr_id (Finite (of_nat 63))),
       executionInfo = None\<rparr>
     = Inr (byteArray_toString accepting_env (of_nat 63 # replicate 31 0))"
    using sr_id_round_trip [OF b, of "[]" accepting_env accepting_env None accepting_env None]
    by blast
  show ?thesis
    using n c by (simp only: r h15 h63)
qed

text \<open>
  C5, as the code has it. The lookup is by the exact string \<open>sr_id\<close>: the not-found
  error is raised exactly when no argument of the list has that name. When the name is
  present with a byte-array value, the result is the rendered string of its bytes (not the
  typed value).
\<close>

theorem extract_sr_id_lookup:
  "(extract_sr_id e r = Inl (Error ''sr_id argument not found in transaction'')
      \<longleftrightarrow> ''sr_id'' \<notin> fst ` set (Transaction_args (transaction r)))
   \<and> (\<forall>data. getByName (Transaction_args (transaction r)) ''sr_id'' = Some (CLByteArray data)
         \<longrightarrow> extract_sr_id e r = Inr (byteArray_toString e data))"
  by (simp add: extract_sr_id_absent extract_sr_id_present)

text \<open>
  A name that differs in case only is not found; a byte array under the exact name is
  rendered.
\<close>

theorem extract_sr_id_lookup_witness:
  "extract_sr_id accepting_env
       (fetched_with_args [(''SR_ID'', CLByteArray [1, 2])])
     = Inl (Error ''sr_id argument not found in transaction'')
   \<and> extract_sr_id accepting_env
       (fetched_with_args [(''target'', CLKey (Key_createByType ''k'' Account)),
                           (''sr_id'', CLByteArray [1, 2])])
     = Inr (hex_of_bytes [1, 2])"
proof -
  let ?e = "accepting_env"
  let ?r1 = "fetched_with_args [(''SR_ID'', CLByteArray [1, 2])]"
  let ?r2 = "fetched_with_args [(''target'', CLKey (Key_createByType ''k'' Account)),
                                (''sr_id'', CLByteArray [1, 2])]"
  have "''sr_id'' \<notin> fst ` set (Transaction_args (transaction ?r1))"
    by (simp add: fetched_with_args_def Transaction_args_def)
  then have a: "extract_sr_id ?e ?r1 = Inl (Error ''sr_id argument not found in transaction'')"
    using extract_sr_id_lookup [of ?e ?r1] by blast
  have "getByName (Transaction_args (transaction ?r2)) ''sr_id'' = Some (CLByteArray [1, 2])"
    by (simp add: fetched_with_args_def Transaction_args_def getByName_def)
  then have "extract_sr_id ?e ?r2 = Inr (byteArray_toString ?e [1, 2])"
    using extract_sr_id_lookup [of ?e ?r2] by blast
  then have b: "extract_sr_id ?e ?r2 = Inr (hex_of_bytes [1, 2])"
    by (simp add: accepting_env_def service_env_def)
  show ?thesis using a b by blast
qed

text \<open>
  The name is present, with an unsigned integer as its value, and no value is returned:
  the call raises a \<open>TypeError\<close>.
\<close>

theorem extract_sr_id_present_other_kind_counterexample:
  "getByName (Transaction_args (transaction
       (fetched_with_args [(''sr_id'', CLUInt256 (NumberLiteral 1000))]))) ''sr_id''
     = Some (CLUInt256 (NumberLiteral 1000))
   \<and> extract_sr_id accepting_env
       (fetched_with_args [(''sr_id'', CLUInt256 (NumberLiteral 1000))]) = Inl TypeError"
  by (simp add: extract_sr_id_def getByName_def fetched_with_args_def Transaction_args_def)

text \<open>
  C10. \<open>extract_sr_id\<close> raises its not-found error exactly when the argument list has
  no argument named \<open>sr_id\<close>. When one is present, the function returns normally exactly
  when its value is a byte array; for a value of any other kind the unguarded access is
  reached and raises a \<open>TypeError\<close>.
\<close>

theorem extract_sr_id_safety:
  "(extract_sr_id e r = Inl (Error ''sr_id argument not found in transaction'')
      \<longleftrightarrow> ''sr_id'' \<notin> fst ` set (Transaction_args (transaction r)))
   \<and> (\<forall>arg. getByName (Transaction_args (transaction r)) ''sr_id'' = Some arg \<longrightarrow>
         ((\<exists>s. extract_sr_id e r = Inr s) \<longleftrightarrow> (\<exists>data. arg = CLByteArray data))
       \<and> ((\<nexists>data. arg = CLByteArray data) \<longrightarrow> extract_sr_id e r = Inl TypeError))"
proof -
  have "((\<exists>s. extract_sr_id e r = Inr s) \<longleftrightarrow> (\<exists>data. arg = CLByteArray data))
       \<and> ((\<nexists>data. arg = CLByteArray data) \<longrightarrow> extract_sr_id e r = Inl TypeError)"
    if "getByName (Transaction_args (transaction r)) ''sr_id'' = Some arg" for arg
    using extract_sr_id_present [OF that, of e] by (cases arg) auto
  then show ?thesis by (simp add: extract_sr_id_absent)
qed

text \<open>A key under the name raises; a byte array under the name returns; no name, not found.\<close>

theorem extract_sr_id_safety_witness:
  "extract_sr_id accepting_env
       (fetched_with_args [(''sr_id'', CLKey (Key_createByType ''k'' Account))]) = Inl TypeError
   \<and> (\<exists>s. extract_sr_id accepting_env
       (fetched_with_args [(''sr_id'', CLByteArray [15])]) = Inr s)
   \<and> extract_sr_id accepting_env (fetched_with_args [])
       = Inl (Error ''sr_id argument not found in transaction'')"
proof -
  let ?e = "accepting_env"
  let ?k = "CLKey (Key_createByType ''k'' Account)"
  have "getByName (Transaction_args (transaction (fetched_with_args [(''sr_id'', ?k)]))) ''sr_id''
          = Some ?k"
    by (simp add: fetched_with_args_def Transaction_args_def getByName_def)
  moreover have "\<nexists>data. ?k = CLByteArray data" by simp
  ultimately have a: "extract_sr_id ?e (fetched_with_args [(''sr_id'', ?k)]) = Inl TypeError"
    using extract_sr_id_safety [of ?e "fetched_with_args [(''sr_id'', ?k)]"] by blast
  have "getByName (Transaction_args (transaction
          (fetched_with_args [(''sr_id'', CLByteArray [15])]))) ''sr_id'' = Some (CLByteArray [15])"
    by (simp add: fetched_with_args_def Transaction_args_def getByName_def)
  then have b: "\<exists>s. extract_sr_id ?e (fetched_with_args [(''sr_id'', CLByteArray [15])]) = Inr s"
    using extract_sr_id_safety [of ?e "fetched_with_args [(''sr_id'', CLByteArray [15])]"] by blast
  have "''sr_id'' \<notin> fst ` set (Transaction_args (transaction (fetched_with_args [])))"
    by (simp add: fetched_with_args_def Transaction_args_def)
  then have c: "extract_sr_id ?e (fetched_with_args [])
       = Inl (Error ''sr_id argument not found in transaction'')"
    using extract_sr_id_safety [of ?e "fetched_with_args []"] by blast
  show ?thesis using a b c by blast
qed

text \<open>
  C8. The argument list of the native transfer has the names \<open>target\<close>, \<open>amount\<close>,
  \<open>sr_id\<close> and that of the contract call the names \<open>recipient\<close>, \<open>amount\<close>,
  \<open>sr_id\<close>, pairwise distinct, whatever values are passed; every list made by
  \<open>Args.fromMap\<close> has pairwise distinct names; and the tag that \<open>new_sr_id\<close> makes is,
  in either list, a byte array of exactly 32 bytes.
\<close>

theorem argument_names_distinct:
  "map fst (Transaction_args (build_native_transfer e pk recipient amount s))
     = [''target'', ''amount'', ''sr_id'']
   \<and> distinct (map fst (Transaction_args (build_native_transfer e pk recipient amount s)))
   \<and> map fst (Transaction_args (cep18_transfer_transaction e s))
     = [''recipient'', ''amount'', ''sr_id'']
   \<and> distinct (map fst (Transaction_args (cep18_transfer_transaction e s)))
   \<and> distinct (map fst (Args_fromMap props))
   \<and> (\<exists>data. getByName (Transaction_args (build_native_transfer e pk recipient amount
                  (new_sr_id v))) ''sr_id'' = Some (CLByteArray data) \<and> length data = 32)
   \<and> (\<exists>data. getByName (Transaction_args (cep18_transfer_transaction e (new_sr_id v))) ''sr_id''
                = Some (CLByteArray data) \<and> length data = 32)"
proof -
  have n: "new_sr_id v = CLByteArray (ToUint8 v # replicate 31 0)" by (rule new_sr_id_bytes)
  have l: "length (ToUint8 v # replicate 31 0) = 32" by simp
  have a: "getByName (Transaction_args (build_native_transfer e pk recipient amount
                  (new_sr_id v))) ''sr_id'' = Some (CLByteArray (ToUint8 v # replicate 31 0))"
    by (simp add: build_native_transfer_args getByName_def n)
  have b: "getByName (Transaction_args (cep18_transfer_transaction e (new_sr_id v))) ''sr_id''
                = Some (CLByteArray (ToUint8 v # replicate 31 0))"
    by (simp add: cep18_transfer_transaction_args getByName_def n)
  have c: "map fst (Transaction_args (build_native_transfer e pk recipient amount s))
     = [''target'', ''amount'', ''sr_id'']"
    by (simp add: build_native_transfer_args)
  have d: "map fst (Transaction_args (cep18_transfer_transaction e s))
     = [''recipient'', ''amount'', ''sr_id'']"
    by (simp add: cep18_transfer_transaction_args)
  have c': "distinct (map fst (Transaction_args (build_native_transfer e pk recipient amount s)))"
    unfolding c by simp
  have d': "distinct (map fst (Transaction_args (cep18_transfer_transaction e s)))"
    unfolding d by simp
  show ?thesis using a b c d c' d' l distinct_Args_fromMap by blast
qed

section \<open>Submission and confirmation\<close>

lemma send_native_transfer_result:
  "fst (send_native_transfer e sr_id con) =
     (case Transaction_sign e (native_transfer_transaction e sr_id) of
        Inl err \<Rightarrow> Rejected err
      | Inr t \<Rightarrow>
          (case putTransaction e t of
             Rejected err \<Rightarrow> Rejected err
           | Uncaught err \<Rightarrow> Uncaught err
           | Fulfilled u \<Rightarrow>
               (case waitForTransaction e t 100000 of
                  Rejected err \<Rightarrow> Rejected err
                | Uncaught err \<Rightarrow> Uncaught err
                | Fulfilled r \<Rightarrow>
                    if is_success r then Fulfilled (hash t)
                    else Rejected (Error ''Transaction was not successful''))))"
  by (simp add: send_native_transfer_def Let_def split: sum.splits completion.splits)

lemma send_cep18_transfer_result:
  "fst (send_cep18_transfer e sr_id con) =
     (case Transaction_sign e (cep18_transfer_transaction e sr_id) of
        Inl err \<Rightarrow> Rejected err
      | Inr t \<Rightarrow>
          (case putTransaction e t of
             Rejected err \<Rightarrow> Rejected err
           | Uncaught err \<Rightarrow> Uncaught err
           | Fulfilled u \<Rightarrow>
               (case waitForTransaction e t 100000 of
                  Rejected err \<Rightarrow> Rejected err
                | Uncaught err \<Rightarrow> Uncaught err
                | Fulfilled r \<Rightarrow>
                    if is_success r then Fulfilled (hash t)
                    else Rejected (Error ''Transaction was not successful''))))"
  by (simp add: send_cep18_transfer_def Let_def split: sum.splits completion.splits)



lemma service_env_sign:
  "Transaction_sign (service_env p w f) t =
     Inr (t\<lparr>approvals := approvals t @ [(PublicKey_fromHex ''01c0ffee'', ''signed '' @ hash t)]\<rparr>)"
  by (simp add: Transaction_sign_def service_env_def)

lemma service_env_hash:
  "hash (native_transfer_transaction (service_env p w f) s) = ''ab12''"
  "hash (cep18_transfer_transaction (service_env p w f) s) = ''ab12''"
  by (simp_all add: native_transfer_transaction_def build_native_transfer_def
      cep18_transfer_transaction_def makeTransactionV1_def service_env_def Let_def)

lemma service_env_publicKey:
  "privateKey_publicKey (service_env p w f) = PublicKey_fromHex ''01c0ffee''"
  by (simp add: service_env_def)

lemma service_env_put: "putTransaction (service_env p w f) t = p"
  by (simp add: service_env_def)

lemma service_env_wait:
  "waitForTransaction (service_env p (Fulfilled result) f) t n =
     Fulfilled \<lparr>transaction = t, executionInfo = Some \<lparr>executionResult = result\<rparr>\<rparr>"
  "waitForTransaction (service_env p (Rejected err) f) t n = Rejected err"
  "waitForTransaction (service_env p (Uncaught err) f) t n = Uncaught err"
  by (simp_all add: service_env_def)

lemma service_env_fetch: "getTransactionByTransactionHash (service_env p w f) h = f"
  by (simp add: service_env_def)




text \<open>
  The service reports the execution with the error message \<open>User error: 1\<close>. Both
  senders fail with the message \<open>Transaction was not successful\<close>, in which the
  reported message does not occur.
\<close>

theorem error_message_not_surfaced_counterexample:
  "fst (send_native_transfer
          (service_env (Fulfilled ()) (Fulfilled \<lparr>errorMessage = Some ''User error: 1''\<rparr>)
             (Rejected (Error ''no such transaction'')))
          (new_sr_id (Finite 15)) [])
     = Rejected (Error ''Transaction was not successful'')
   \<and> fst (send_cep18_transfer
          (service_env (Fulfilled ()) (Fulfilled \<lparr>errorMessage = Some ''User error: 1''\<rparr>)
             (Rejected (Error ''no such transaction'')))
          (new_sr_id (Finite 63)) [])
     = Rejected (Error ''Transaction was not successful'')
   \<and> \<not> sublist ''User error: 1'' ''Transaction was not successful''"
proof -
  have "\<not> sublist ''User error: 1'' ''Transaction was not successful''"
    by code_simp
  then show ?thesis
    by (simp add: send_native_transfer_result send_cep18_transfer_result service_env_sign
      service_env_hash service_env_put service_env_wait is_success_def)
qed

text \<open>
  C2, as the code has it. When the signed transaction is accepted and the wait answers
  with a record whose execution result carries an error message, each sender fails with
  \<open>Error "Transaction was not successful"\<close>, whatever that message is.
\<close>

theorem failure_message_fixed:
  "Transaction_sign e built = Inr t \<Longrightarrow>
   putTransaction e t = Fulfilled u \<Longrightarrow>
   waitForTransaction e t 100000 = Fulfilled r \<Longrightarrow>
   executionInfo r = Some info \<Longrightarrow>
   errorMessage (executionResult info) = Some m \<Longrightarrow>
     (built = native_transfer_transaction e sr_id \<longrightarrow>
        fst (send_native_transfer e sr_id con)
          = Rejected (Error ''Transaction was not successful''))
   \<and> (built = cep18_transfer_transaction e sr_id \<longrightarrow>
        fst (send_cep18_transfer e sr_id con)
          = Rejected (Error ''Transaction was not successful''))"
  by (auto simp: send_native_transfer_result send_cep18_transfer_result is_success_def)

text \<open>With the reported message \<open>out of gas\<close>, and a console that is not empty.\<close>

theorem failure_message_fixed_witness:
  "fst (send_native_transfer
          (service_env (Fulfilled ()) (Fulfilled \<lparr>errorMessage = Some ''out of gas''\<rparr>)
             (Rejected (Error ''no such transaction'')))
          (new_sr_id (Finite 15)) [console_log [''start'']])
     = Rejected (Error ''Transaction was not successful'')
   \<and> fst (send_cep18_transfer
          (service_env (Fulfilled ()) (Fulfilled \<lparr>errorMessage = Some ''out of gas''\<rparr>)
             (Rejected (Error ''no such transaction'')))
          (new_sr_id (Finite 63)) [console_log [''start'']])
     = Rejected (Error ''Transaction was not successful'')"
proof -
  let ?res = "\<lparr>errorMessage = Some ''out of gas''\<rparr>"
  let ?info = "\<lparr>executionResult = ?res\<rparr>"
  let ?e = "service_env (Fulfilled ()) (Fulfilled ?res) (Rejected (Error ''no such transaction''))"
  let ?n = "native_transfer_transaction ?e (new_sr_id (Finite 15))"
  let ?c = "cep18_transfer_transaction ?e (new_sr_id (Finite 63))"
  let ?sign = "\<lambda>t. t\<lparr>approvals := approvals t
                    @ [(PublicKey_fromHex ''01c0ffee'', ''signed '' @ hash t)]\<rparr>"
  have m: "errorMessage (executionResult ?info) = Some ''out of gas''" by simp
  have a: "fst (send_native_transfer ?e (new_sr_id (Finite 15)) [console_log [''start'']])
             = Rejected (Error ''Transaction was not successful'')"
    using failure_message_fixed [of ?e ?n "?sign ?n" "()"
        "\<lparr>transaction = ?sign ?n, executionInfo = Some ?info\<rparr>" ?info "''out of gas''"
        "new_sr_id (Finite 15)" "[console_log [''start'']]"] m
    by (simp add: service_env_sign service_env_put service_env_wait)
  have b: "fst (send_cep18_transfer ?e (new_sr_id (Finite 63)) [console_log [''start'']])
             = Rejected (Error ''Transaction was not successful'')"
    using failure_message_fixed [of ?e ?c "?sign ?c" "()"
        "\<lparr>transaction = ?sign ?c, executionInfo = Some ?info\<rparr>" ?info "''out of gas''"
        "new_sr_id (Finite 63)" "[console_log [''start'']]"] m
    by (simp add: service_env_sign service_env_put service_env_wait)
  show ?thesis using a b by blast
qed

section \<open>The examples and main\<close>

lemma run_native_transfer_example_result:
  "fst (run_native_transfer_example e con) =
     (case Transaction_sign e (native_transfer_transaction e (new_sr_id (Finite 15))) of
        Inl err \<Rightarrow> Rejected err
      | Inr t \<Rightarrow>
          (case putTransaction e t of
             Rejected err \<Rightarrow> Rejected err
           | Uncaught err \<Rightarrow> Uncaught err
           | Fulfilled u \<Rightarrow>
               (case waitForTransaction e t 100000 of
                  Rejected err \<Rightarrow> Rejected err
                | Uncaught err \<Rightarrow> Uncaught err
                | Fulfilled r \<Rightarrow>
                    if \<not> is_success r then Rejected (Error ''Transaction was not successful'')
                    else (case getTransactionByTransactionHash e (hash t) of
                            Rejected err \<Rightarrow> Rejected err
                          | Uncaught err \<Rightarrow> Uncaught err
                          | Fulfilled tx \<Rightarrow>
                              (case extract_sr_id e tx of
                                 Inl err \<Rightarrow> Rejected err
                               | Inr s \<Rightarrow> Fulfilled ())))))"
proof -
  let ?con = "con @ [console_log [''[x] Running native transfer example''],
                     console_log [''[x] Public key:'', toHex (privateKey_publicKey e)]]"
  have "fst (run_native_transfer_example e con) =
     (case fst (send_native_transfer e (new_sr_id (Finite 15)) ?con) of
        Rejected err \<Rightarrow> Rejected err
      | Uncaught err \<Rightarrow> Uncaught err
      | Fulfilled h \<Rightarrow>
          (case getTransactionByTransactionHash e h of
             Rejected err \<Rightarrow> Rejected err
           | Uncaught err \<Rightarrow> Uncaught err
           | Fulfilled tx \<Rightarrow>
               (case extract_sr_id e tx of Inl err \<Rightarrow> Rejected err | Inr s \<Rightarrow> Fulfilled ())))"
    by (simp add: run_native_transfer_example_def Let_def
        split: prod.splits sum.splits completion.splits)
  then show ?thesis
    by (simp add: send_native_transfer_result split: sum.splits completion.splits)
qed

lemma run_cep18_transfer_example_result:
  "fst (run_cep18_transfer_example e con) =
     (case Transaction_sign e (cep18_transfer_transaction e (new_sr_id (Finite 63))) of
        Inl err \<Rightarrow> Rejected err
      | Inr t \<Rightarrow>
          (case putTransaction e t of
             Rejected err \<Rightarrow> Rejected err
           | Uncaught err \<Rightarrow> Uncaught err
           | Fulfilled u \<Rightarrow>
               (case waitForTransaction e t 100000 of
                  Rejected err \<Rightarrow> Rejected err
                | Uncaught err \<Rightarrow> Uncaught err
                | Fulfilled r \<Rightarrow>
                    if \<not> is_success r then Rejected (Error ''Transaction was not successful'')
                    else (case getTransactionByTransactionHash e (hash t) of
                            Rejected err \<Rightarrow> Rejected err
                          | Uncaught err \<Rightarrow> Uncaught err
                          | Fulfilled tx \<Rightarrow>
                              (case extract_sr_id e tx of
                                 Inl err \<Rightarrow> Rejected err
                               | Inr s \<Rightarrow> Fulfilled ())))))"
proof -
  let ?con = "con @ [console_log [''[x] Running CEP-18 transfer example''],
                     console_log [''[x] Public key:'', toHex (privateKey_publicKey e)]]"
  have "fst (run_cep18_transfer_example e con) =
     (case fst (send_cep18_transfer e (new_sr_id (Finite 63)) ?con) of
        Rejected err \<Rightarrow> Rejected err
      | Uncaught err \<Rightarrow> Uncaught err
      | Fulfilled h \<Rightarrow>
          (case getTransactionByTransactionHash e h of
             Rejected err \<Rightarrow> Rejected err
           | Uncaught err \<Rightarrow> Uncaught err
           | Fulfilled tx \<Rightarrow>
               (case extract_sr_id e tx of Inl err \<Rightarrow> Rejected err | Inr s \<Rightarrow> Fulfilled ())))"
    by (simp add: run_cep18_transfer_example_def Let_def
        split: prod.splits sum.splits completion.splits)
  then show ?thesis
    by (simp add: send_cep18_transfer_result split: sum.splits completion.splits)
qed

lemma send_native_transfer_console:
  "set con \<subseteq> set (snd (send_native_transfer e s con))"
  by (auto simp: send_native_transfer_def Let_def split: sum.splits completion.splits)

lemma run_native_transfer_example_console:
  "set con \<subseteq> set (snd (run_native_transfer_example e con))"
proof -
  let ?con = "con @ [console_log [''[x] Running native transfer example''],
                     console_log [''[x] Public key:'', toHex (privateKey_publicKey e)]]"
  have "set ?con \<subseteq> set (snd (send_native_transfer e (new_sr_id (Finite 15)) ?con))"
    by (rule send_native_transfer_console)
  then have "set ?con \<subseteq> set (snd (run_native_transfer_example e con))"
    by (auto simp: run_native_transfer_example_def Let_def
        split: prod.splits sum.splits completion.splits)
  then show ?thesis by auto
qed

lemma send_cep18_transfer_console:
  "set con \<subseteq> set (snd (send_cep18_transfer e s con))"
  by (auto simp: send_cep18_transfer_def Let_def split: sum.splits completion.splits)

lemma run_cep18_transfer_example_console:
  "set con \<subseteq> set (snd (run_cep18_transfer_example e con))"
proof -
  let ?con = "con @ [console_log [''[x] Running CEP-18 transfer example''],
                     console_log [''[x] Public key:'', toHex (privateKey_publicKey e)]]"
  have "set ?con \<subseteq> set (snd (send_cep18_transfer e (new_sr_id (Finite 63)) ?con))"
    by (rule send_cep18_transfer_console)
  then have "set ?con \<subseteq> set (snd (run_cep18_transfer_example e con))"
    by (auto simp: run_cep18_transfer_example_def Let_def
        split: prod.splits sum.splits completion.splits)
  then show ?thesis by auto
qed

lemma catch_console_error_simps:
  "catch_console_error (Rejected err, c) = (Fulfilled (), c @ [console_error err])"
  "catch_console_error (Fulfilled u, c) = (Fulfilled u, c)"
  "catch_console_error (Uncaught err, c) = (Uncaught err, c)"
  by (simp_all add: catch_console_error_def)

lemma main_after_native:
  "run_native_transfer_example e con = (Uncaught err, c) \<Longrightarrow> main e con = (Uncaught err, c)"
  "run_native_transfer_example e con = (Rejected err, c) \<Longrightarrow>
     main e con =
       (case catch_console_error (run_cep18_transfer_example e (c @ [console_error err])) of
          (Uncaught err', c') \<Rightarrow> (Uncaught err', c')
        | (Rejected err', c') \<Rightarrow> (Rejected err', c')
        | (Fulfilled u, c') \<Rightarrow> (Fulfilled (), c'))"
  "run_native_transfer_example e con = (Fulfilled u, c) \<Longrightarrow>
     main e con =
       (case catch_console_error (run_cep18_transfer_example e c) of
          (Uncaught err', c') \<Rightarrow> (Uncaught err', c')
        | (Rejected err', c') \<Rightarrow> (Rejected err', c')
        | (Fulfilled u, c') \<Rightarrow> (Fulfilled (), c'))"
  by (simp_all add: main_def catch_console_error_simps)

lemma main_after_cep18:
  "(case catch_console_error (Uncaught err, c) of
          (Uncaught err', c') \<Rightarrow> (Uncaught err', c')
        | (Rejected err', c') \<Rightarrow> (Rejected err', c')
        | (Fulfilled u, c') \<Rightarrow> (Fulfilled (), c')) = (Uncaught err, c)"
  "(case catch_console_error (Rejected err, c) of
          (Uncaught err', c') \<Rightarrow> (Uncaught err', c')
        | (Rejected err', c') \<Rightarrow> (Rejected err', c')
        | (Fulfilled u, c') \<Rightarrow> (Fulfilled (), c')) = (Fulfilled (), c @ [console_error err])"
  "(case catch_console_error (Fulfilled u, c) of
          (Uncaught err', c') \<Rightarrow> (Uncaught err', c')
        | (Rejected err', c') \<Rightarrow> (Rejected err', c')
        | (Fulfilled u, c') \<Rightarrow> (Fulfilled (), c')) = (Fulfilled (), c)"
  by (simp_all add: catch_console_error_simps)

text \<open>
  The service rejects every broadcast. Each example fails with the rejection; \<open>main\<close>
  completes normally, and the two rejections are lines of the console only.
\<close>

theorem main_swallows_rejection_counterexample:
  "fst (run_native_transfer_example
          (service_env (Rejected (Error ''rejected'')) (Fulfilled \<lparr>errorMessage = None\<rparr>)
             (Rejected (Error ''no such transaction''))) [])
     = Rejected (Error ''rejected'')
   \<and> fst (run_cep18_transfer_example
          (service_env (Rejected (Error ''rejected'')) (Fulfilled \<lparr>errorMessage = None\<rparr>)
             (Rejected (Error ''no such transaction''))) [])
     = Rejected (Error ''rejected'')
   \<and> main (service_env (Rejected (Error ''rejected'')) (Fulfilled \<lparr>errorMessage = None\<rparr>)
             (Rejected (Error ''no such transaction''))) [] =
       (Fulfilled (),
        [console_log [''[x] Running native transfer example''],
         console_log [''[x] Public key:'', ''01c0ffee''],
         console_log [''[x] Transaction Hash:'', ''ab12''],
         console_error (Error ''rejected''),
         console_log [''[x] Running CEP-18 transfer example''],
         console_log [''[x] Public key:'', ''01c0ffee''],
         console_log [''[x] Transaction Hash:'', ''ab12''],
         console_error (Error ''rejected'')])"
proof -
  let ?e = "service_env (Rejected (Error ''rejected'')) (Fulfilled \<lparr>errorMessage = None\<rparr>)
             (Rejected (Error ''no such transaction''))"
  have a: "fst (run_native_transfer_example ?e []) = Rejected (Error ''rejected'')"
    by (simp add: run_native_transfer_example_result service_env_sign service_env_put)
  have b: "fst (run_cep18_transfer_example ?e []) = Rejected (Error ''rejected'')"
    by (simp add: run_cep18_transfer_example_result service_env_sign service_env_put)
  have pk: "privateKey_publicKey ?e = PublicKey_fromHex ''01c0ffee''"
    by (rule service_env_publicKey)
  have n: "send_native_transfer ?e s con =
             (Rejected (Error ''rejected''),
              con @ [console_log [''[x] Transaction Hash:'', ''ab12'']])"
    for s con
    by (simp add: send_native_transfer_def service_env_sign service_env_put service_env_hash)
  have c: "send_cep18_transfer ?e s con =
             (Rejected (Error ''rejected''),
              con @ [console_log [''[x] Transaction Hash:'', ''ab12'']])"
    for s con
    by (simp add: send_cep18_transfer_def service_env_sign service_env_put service_env_hash)
  have "main ?e [] =
       (Fulfilled (),
        [console_log [''[x] Running native transfer example''],
         console_log [''[x] Public key:'', ''01c0ffee''],
         console_log [''[x] Transaction Hash:'', ''ab12''],
         console_error (Error ''rejected''),
         console_log [''[x] Running CEP-18 transfer example''],
         console_log [''[x] Public key:'', ''01c0ffee''],
         console_log [''[x] Transaction Hash:'', ''ab12''],
         console_error (Error ''rejected'')])"
    by (simp add: main_def run_native_transfer_example_def run_cep18_transfer_example_def
        catch_console_error_def n c pk)
  then show ?thesis using a b by blast
qed

text \<open>
  C6, as the code has it. The result of each example is the first failure among signing,
  broadcast, wait, success check, fetch and extraction, unchanged, and it is a normal
  return only when all six succeed: the caller of an example observes every failure.
  \<open>main\<close> never rejects: a rejection of either example is written to the console by
  \<open>console.error\<close>, the run goes on, and the caller of \<open>main\<close> does not observe it.
  An error raised outside the promise while a call is awaited (the timeout of the wait) is
  not caught: the run ends there with the console as it is, nothing is handed to
  \<open>console.error\<close>, and \<open>main\<close> completes exactly when no such error occurs in either
  example.
\<close>

theorem failures_reach_examples_and_main_logs:
  "(\<forall>err. fst (main e con) \<noteq> Rejected err)
   \<and> (fst (main e con) = Fulfilled () \<longleftrightarrow>
        (\<forall>err. fst (run_native_transfer_example e con) \<noteq> Uncaught err) \<and> (\<forall>err. fst (run_cep18_transfer_example e (snd (catch_console_error (run_native_transfer_example e con)))) \<noteq> Uncaught err))
   \<and> (\<forall>err. fst (run_native_transfer_example e con) = Rejected err \<longrightarrow> console_error err \<in> set (snd (main e con)))
   \<and> (\<forall>err. fst (run_native_transfer_example e con) = Uncaught err \<longrightarrow> main e con = (Uncaught err, snd (run_native_transfer_example e con)))
   \<and> (\<forall>err. (\<forall>err'. fst (run_native_transfer_example e con) \<noteq> Uncaught err') \<and> fst (run_cep18_transfer_example e (snd (catch_console_error (run_native_transfer_example e con)))) = Rejected err \<longrightarrow>
         main e con = (Fulfilled (), snd (run_cep18_transfer_example e (snd (catch_console_error (run_native_transfer_example e con)))) @ [console_error err]))
   \<and> (\<forall>err. (\<forall>err'. fst (run_native_transfer_example e con) \<noteq> Uncaught err') \<and> fst (run_cep18_transfer_example e (snd (catch_console_error (run_native_transfer_example e con)))) = Uncaught err \<longrightarrow>
         main e con = (Uncaught err, snd (run_cep18_transfer_example e (snd (catch_console_error (run_native_transfer_example e con))))))
   \<and> fst (run_native_transfer_example e con) =
     (case Transaction_sign e (native_transfer_transaction e (new_sr_id (Finite 15))) of
        Inl err \<Rightarrow> Rejected err
      | Inr t \<Rightarrow>
          (case putTransaction e t of
             Rejected err \<Rightarrow> Rejected err
           | Uncaught err \<Rightarrow> Uncaught err
           | Fulfilled u \<Rightarrow>
               (case waitForTransaction e t 100000 of
                  Rejected err \<Rightarrow> Rejected err
                | Uncaught err \<Rightarrow> Uncaught err
                | Fulfilled r \<Rightarrow>
                    if \<not> is_success r then Rejected (Error ''Transaction was not successful'')
                    else (case getTransactionByTransactionHash e (hash t) of
                            Rejected err \<Rightarrow> Rejected err
                          | Uncaught err \<Rightarrow> Uncaught err
                          | Fulfilled tx \<Rightarrow>
                              (case extract_sr_id e tx of
                                 Inl err \<Rightarrow> Rejected err
                               | Inr s \<Rightarrow> Fulfilled ())))))
   \<and> fst (run_cep18_transfer_example e con) =
     (case Transaction_sign e (cep18_transfer_transaction e (new_sr_id (Finite 63))) of
        Inl err \<Rightarrow> Rejected err
      | Inr t \<Rightarrow>
          (case putTransaction e t of
             Rejected err \<Rightarrow> Rejected err
           | Uncaught err \<Rightarrow> Uncaught err
           | Fulfilled u \<Rightarrow>
               (case waitForTransaction e t 100000 of
                  Rejected err \<Rightarrow> Rejected err
                | Uncaught err \<Rightarrow> Uncaught err
                | Fulfilled r \<Rightarrow>
                    if \<not> is_success r then Rejected (Error ''Transaction was not successful'')
                    else (case getTransactionByTransactionHash e (hash t) of
                            Rejected err \<Rightarrow> Rejected err
                          | Uncaught err \<Rightarrow> Uncaught err
                          | Fulfilled tx \<Rightarrow>
                              (case extract_sr_id e tx of
                                 Inl err \<Rightarrow> Rejected err
                               | Inr s \<Rightarrow> Fulfilled ())))))"
proof -
  obtain rn cn where n: "run_native_transfer_example e con = (rn, cn)"
    by (cases "run_native_transfer_example e con")
  define c1 where "c1 = snd (catch_console_error (rn, cn))"
  obtain rp cp where p: "run_cep18_transfer_example e c1 = (rp, cp)"
    by (cases "run_cep18_transfer_example e c1")
  have sub: "set c1 \<subseteq> set cp"
    using run_cep18_transfer_example_console [of c1 e] p by simp
  have m: "main e con =
     (case rn of
        Uncaught err \<Rightarrow> (Uncaught err, cn)
      | Rejected err \<Rightarrow>
          (case rp of
             Uncaught err' \<Rightarrow> (Uncaught err', cp)
           | Rejected err' \<Rightarrow> (Fulfilled (), cp @ [console_error err'])
           | Fulfilled u \<Rightarrow> (Fulfilled (), cp))
      | Fulfilled v \<Rightarrow>
          (case rp of
             Uncaught err' \<Rightarrow> (Uncaught err', cp)
           | Rejected err' \<Rightarrow> (Fulfilled (), cp @ [console_error err'])
           | Fulfilled u \<Rightarrow> (Fulfilled (), cp)))"
  proof (cases rn)
    case (Uncaught err)
    then show ?thesis using n by (simp add: main_after_native)
  next
    case (Rejected err)
    then have "c1 = cn @ [console_error err]"
      by (simp add: c1_def catch_console_error_simps)
    then show ?thesis
      using n p Rejected by (cases rp) (simp_all add: main_after_native main_after_cep18)
  next
    case (Fulfilled v)
    then have "c1 = cn"
      by (simp add: c1_def catch_console_error_simps)
    then show ?thesis
      using n p Fulfilled by (cases rp) (simp_all add: main_after_native main_after_cep18)
  qed
  have p': "run_cep18_transfer_example e (snd (catch_console_error (rn, cn))) = (rp, cp)"
    using p by (simp add: c1_def)
  have 1: "\<forall>err. fst (main e con) \<noteq> Rejected err"
    unfolding m by (cases rn; cases rp) simp_all
  have 2: "fst (main e con) = Fulfilled () \<longleftrightarrow>
        (\<forall>err. fst (run_native_transfer_example e con) \<noteq> Uncaught err) \<and> (\<forall>err. fst (run_cep18_transfer_example e (snd (catch_console_error (run_native_transfer_example e con)))) \<noteq> Uncaught err)"
    unfolding m n p' by (cases rn; cases rp) simp_all
  have 3: "\<forall>err. fst (run_native_transfer_example e con) = Rejected err \<longrightarrow> console_error err \<in> set (snd (main e con))"
  proof (intro allI impI)
    fix err assume "fst (run_native_transfer_example e con) = Rejected err"
    then have r: "rn = Rejected err" using n by simp
    then have "console_error err \<in> set c1"
      by (simp add: c1_def catch_console_error_simps)
    then have "console_error err \<in> set cp" using sub by blast
    then show "console_error err \<in> set (snd (main e con))"
      unfolding m r by (cases rp) simp_all
  qed
  have 4: "\<forall>err. fst (run_native_transfer_example e con) = Uncaught err \<longrightarrow> main e con = (Uncaught err, snd (run_native_transfer_example e con))"
    unfolding m n by simp
  have 5: "\<forall>err. (\<forall>err'. fst (run_native_transfer_example e con) \<noteq> Uncaught err') \<and> fst (run_cep18_transfer_example e (snd (catch_console_error (run_native_transfer_example e con)))) = Rejected err \<longrightarrow>
         main e con = (Fulfilled (), snd (run_cep18_transfer_example e (snd (catch_console_error (run_native_transfer_example e con)))) @ [console_error err])"
    unfolding m n p' by (cases rn) simp_all
  have 6: "\<forall>err. (\<forall>err'. fst (run_native_transfer_example e con) \<noteq> Uncaught err') \<and> fst (run_cep18_transfer_example e (snd (catch_console_error (run_native_transfer_example e con)))) = Uncaught err \<longrightarrow>
         main e con = (Uncaught err, snd (run_cep18_transfer_example e (snd (catch_console_error (run_native_transfer_example e con)))))"
    unfolding m n p' by (cases rn) simp_all
  show ?thesis
    using 1 2 3 4 5 6 run_native_transfer_example_result [of e con]
      run_cep18_transfer_example_result [of e con]
    by blast
qed

text \<open>
  The wait ends with its timeout raised outside the promise: \<open>main\<close> ends there, after
  one broadcast, and the console has no \<open>console.error\<close> line. An execution reported
  with an error message: both examples are rejected at the success check, \<open>main\<close>
  completes normally, and the failure is a line of its console.
\<close>

theorem failures_reach_examples_and_main_logs_witness:
  "main (service_env (Fulfilled ()) (Uncaught (Error ''Timeout''))
           (Rejected (Error ''no such transaction''))) []
     = (Uncaught (Error ''Timeout''),
        [console_log [''[x] Running native transfer example''],
         console_log [''[x] Public key:'', ''01c0ffee''],
         console_log [''[x] Transaction Hash:'', ''ab12'']])
   \<and> fst (main (service_env (Fulfilled ()) (Fulfilled \<lparr>errorMessage = Some ''out of gas''\<rparr>)
           (Rejected (Error ''no such transaction''))) [])
     = Fulfilled ()
   \<and> console_error (Error ''Transaction was not successful'')
       \<in> set (snd (main
          (service_env (Fulfilled ()) (Fulfilled \<lparr>errorMessage = Some ''out of gas''\<rparr>)
           (Rejected (Error ''no such transaction''))) []))"
proof -
  let ?t = "service_env (Fulfilled ()) (Uncaught (Error ''Timeout''))
           (Rejected (Error ''no such transaction''))"
  let ?b = "service_env (Fulfilled ()) (Fulfilled \<lparr>errorMessage = Some ''out of gas''\<rparr>)
           (Rejected (Error ''no such transaction''))"
  note t = failures_reach_examples_and_main_logs [of ?t "[]"]
  note b = failures_reach_examples_and_main_logs [of ?b "[]"]
  have "fst (run_native_transfer_example ?t []) = Uncaught (Error ''Timeout'')"
    using t by (simp add: service_env_sign service_env_put service_env_wait)
  then have "main ?t [] = (Uncaught (Error ''Timeout''), snd (run_native_transfer_example ?t []))"
    using t by blast
  moreover have "snd (run_native_transfer_example ?t []) =
        [console_log [''[x] Running native transfer example''],
         console_log [''[x] Public key:'', ''01c0ffee''],
         console_log [''[x] Transaction Hash:'', ''ab12'']]"
    by (simp add: run_native_transfer_example_def send_native_transfer_def service_env_sign
        service_env_put service_env_wait service_env_hash service_env_publicKey)
  ultimately have 1: "main ?t [] = (Uncaught (Error ''Timeout''),
        [console_log [''[x] Running native transfer example''],
         console_log [''[x] Public key:'', ''01c0ffee''],
         console_log [''[x] Transaction Hash:'', ''ab12'']])"
    by simp
  have rn: "fst (run_native_transfer_example ?b [])
              = Rejected (Error ''Transaction was not successful'')"
    using b by (simp add: service_env_sign service_env_put service_env_wait is_success_def)
  have rp: "fst (run_cep18_transfer_example ?b c)
              = Rejected (Error ''Transaction was not successful'')" for c
    by (simp add: run_cep18_transfer_example_result service_env_sign service_env_put
        service_env_wait is_success_def)
  have 2: "fst (main ?b []) = Fulfilled ()"
    using b rn rp by simp
  have 3: "console_error (Error ''Transaction was not successful'') \<in> set (snd (main ?b []))"
    using b rn by blast
  show ?thesis using 1 2 3 by blast
qed

end
